theory Spec2Isabelle
  imports Complex_Main "HOL-Library.AList"
begin

section \<open>Graph model (graphlabs/core/graph.py)\<close>

text \<open>
  A \<open>Node\<close> and an \<open>Edge\<close> are the dataclasses of the source. The coordinates are
  Python floats that the graph only stores and passes through; they are reals here.
  The field \<open>id\<close> is called \<open>node_id\<close>, and the two \<open>color\<close> and \<open>directed\<close> fields
  carry the name of their class.
\<close>

record Node =
  node_id :: int
  pos_x :: real
  pos_y :: real
  label :: string
  node_color :: string

record Edge =
  source :: int
  target :: int
  weight :: int
  edge_directed :: bool
  edge_color :: string

text \<open>
  \<open>Graph.nodes\<close> is a Python dict, which iterates in insertion order: an association
  list with the dict's three operations. Assigning to an existing key keeps its place,
  assigning to a new key appends (\<open>AList.update\<close>), \<open>del\<close> drops the entry
  (\<open>AList.delete\<close>).
\<close>

record Graph =
  nodes :: "(int \<times> Node) list"
  edges :: "Edge list"
  directed :: bool
  next_id :: int

definition node_ids :: "Graph \<Rightarrow> int list" where
  "node_ids g = map fst (nodes g)"

definition has_node :: "Graph \<Rightarrow> int \<Rightarrow> bool" where
  "has_node g k = (k \<in> set (node_ids g))"

definition Graph_init :: "bool \<Rightarrow> Graph" where
  "Graph_init d = \<lparr>nodes = [], edges = [], directed = d, next_id = 0\<rparr>"

text \<open>\<open>Node._int_to_letter\<close>: 0 -> A, 1 -> B, ..., 26 -> AA.\<close>

lemma int_to_letter_measure: "(n::int) > 0 \<Longrightarrow> nat ((n - 1) div 26) < nat n"
  by linarith

function int_to_letter_loop :: "int \<Rightarrow> string \<Rightarrow> string" where
  "int_to_letter_loop n result =
     (if n > 0
      then (let n1 = n - 1
            in int_to_letter_loop (n1 div 26) (char_of (65 + n1 mod 26) # result))
      else result)"
  by pat_completeness auto
termination
  by (relation "measure (\<lambda>(n, result). nat n)") (auto intro: int_to_letter_measure)

declare int_to_letter_loop.simps [simp del]

definition int_to_letter :: "int \<Rightarrow> string" where
  "int_to_letter n = int_to_letter_loop (n + 1) []"

text \<open>The dataclass constructor with \<open>__post_init__\<close>: an empty label becomes the letter.\<close>

definition Node_init :: "int \<Rightarrow> real \<Rightarrow> real \<Rightarrow> string \<Rightarrow> Node" where
  "Node_init i px py l =
     \<lparr>node_id = i, pos_x = px, pos_y = py,
      label = (if l = [] then int_to_letter i else l),
      node_color = ''#4A90E2''\<rparr>"

definition Edge_init :: "int \<Rightarrow> int \<Rightarrow> int \<Rightarrow> bool \<Rightarrow> Edge" where
  "Edge_init s t w d =
     \<lparr>source = s, target = t, weight = w, edge_directed = d, edge_color = ''#333333''\<rparr>"

definition add_node :: "real \<Rightarrow> real \<Rightarrow> string \<Rightarrow> Graph \<Rightarrow> int \<times> Graph" where
  "add_node px py l g =
     (let new_id = next_id g;
          node = Node_init new_id px py l
      in (new_id, g\<lparr>nodes := AList.update new_id node (nodes g), next_id := next_id g + 1\<rparr>))"

definition add_edge :: "int \<Rightarrow> int \<Rightarrow> int \<Rightarrow> Graph \<Rightarrow> Graph" where
  "add_edge s t w g =
     (if has_node g s \<and> has_node g t
      then g\<lparr>edges := edges g @ [Edge_init s t w (directed g)]\<rparr>
      else g)"

definition update_node_label :: "int \<Rightarrow> string \<Rightarrow> Graph \<Rightarrow> Graph" where
  "update_node_label k l g =
     (case map_of (nodes g) k of
        None \<Rightarrow> g
      | Some n \<Rightarrow> g\<lparr>nodes := AList.update k (n\<lparr>label := l\<rparr>) (nodes g)\<rparr>)"

definition edge_matches :: "Graph \<Rightarrow> int \<Rightarrow> int \<Rightarrow> Edge \<Rightarrow> bool" where
  "edge_matches g s t e =
     ((source e = s \<and> target e = t) \<or> (\<not> directed g \<and> source e = t \<and> target e = s))"

definition get_edge :: "Graph \<Rightarrow> int \<Rightarrow> int \<Rightarrow> Edge option" where
  "get_edge g s t = find (edge_matches g s t) (edges g)"

definition remove_node :: "int \<Rightarrow> Graph \<Rightarrow> Graph" where
  "remove_node k g =
     (if has_node g k
      then g\<lparr>nodes := AList.delete k (nodes g),
             edges := filter (\<lambda>e. source e \<noteq> k \<and> target e \<noteq> k) (edges g)\<rparr>
      else g)"

definition remove_edge :: "int \<Rightarrow> int \<Rightarrow> Graph \<Rightarrow> Graph" where
  "remove_edge s t g = g\<lparr>edges := filter (\<lambda>e. \<not> (source e = s \<and> target e = t)) (edges g)\<rparr>"

fun neighbors_of_edge :: "bool \<Rightarrow> int \<Rightarrow> Edge \<Rightarrow> int list" where
  "neighbors_of_edge d k e =
     (if source e = k then [target e]
      else if \<not> d \<and> target e = k then [source e]
      else [])"

definition get_neighbors :: "Graph \<Rightarrow> int \<Rightarrow> int list" where
  "get_neighbors g k = concat (map (neighbors_of_edge (directed g) k) (edges g))"

definition clear :: "Graph \<Rightarrow> Graph" where
  "clear g = g\<lparr>nodes := [], edges := [], next_id := 0\<rparr>"

text \<open>
  What the graph's own operations keep true: the dict's keys are in strictly ascending
  order and all below the counter, every node sits under its own id, and every edge joins
  two vertices of the graph.
\<close>

definition ids_ascending :: "Graph \<Rightarrow> bool" where
  "ids_ascending g = (sorted_wrt (<) (node_ids g) \<and> list_all (\<lambda>k. k < next_id g) (node_ids g))"

definition edges_closed :: "Graph \<Rightarrow> bool" where
  "edges_closed g = list_all (\<lambda>e. has_node g (source e) \<and> has_node g (target e)) (edges g)"

definition wf_graph :: "Graph \<Rightarrow> bool" where
  "wf_graph g = (ids_ascending g \<and> edges_closed g)"

text \<open>The start vertex of an analysis: \<open>next(iter(self.graph.nodes))\<close> when none is given.
  The analyses return before this on an empty graph.\<close>

definition first_node :: "Graph \<Rightarrow> int" where
  "first_node g = fst (hd (nodes g))"

definition choose_start :: "Graph \<Rightarrow> int option \<Rightarrow> int" where
  "choose_start g start_node = (case start_node of None \<Rightarrow> first_node g | Some s \<Rightarrow> s)"

subsection \<open>Example graphs, built with the graph's own operations\<close>

definition two_nodes :: "bool \<Rightarrow> Graph" where
  "two_nodes d = snd (add_node 0 0 [] (snd (add_node 0 0 [] (Graph_init d))))"

definition three_nodes :: "bool \<Rightarrow> Graph" where
  "three_nodes d = snd (add_node 0 0 [] (two_nodes d))"

definition single_edge_graph :: Graph where
  "single_edge_graph = add_edge 0 1 1 (two_nodes False)"

definition reversed_edge_graph :: Graph where
  "reversed_edge_graph = add_edge 1 0 1 (two_nodes False)"

definition one_edge_three_nodes :: Graph where
  "one_edge_three_nodes = add_edge 0 1 1 (three_nodes False)"

lemmas graph_defs =
  Graph_init_def add_node_def add_edge_def remove_node_def remove_edge_def clear_def
  Node_init_def Edge_init_def node_ids_def has_node_def get_neighbors_def get_edge_def
  edge_matches_def first_node_def choose_start_def

lemmas example_defs =
  two_nodes_def three_nodes_def single_edge_graph_def reversed_edge_graph_def
  one_edge_three_nodes_def

section \<open>Traversal (graphlabs/algorithms/traversal)\<close>














text \<open>
  Python's \<open>str\<close> on an integer, used by \<open>get_label\<close> for an id that is not in the graph.
\<close>

function str_nat :: "nat \<Rightarrow> string" where
  "str_nat n = (if n < 10 then [char_of (48 + n)] else str_nat (n div 10) @ [char_of (48 + n mod 10)])"
  by pat_completeness auto
termination
  by (relation "measure (\<lambda>n. n)") auto

declare str_nat.simps [simp del]

definition str_int :: "int \<Rightarrow> string" where
  "str_int i = (if i < 0 then CHR ''-'' # str_nat (nat (- i)) else str_nat (nat i))"

definition get_label :: "Graph \<Rightarrow> int \<Rightarrow> string" where
  "get_label g k = (case map_of (nodes g) k of Some n \<Rightarrow> label n | None \<Rightarrow> str_int k)"

text \<open>
  The canvas (graphlabs/ui/canvas.py) as far as the algorithms use it: the two highlight
  sets. An \<open>AlgorithmModule\<close> (graphlabs/algorithms/base.py) holds the graph and the
  canvas; \<open>run\<close> returns its report and the module after the call.
\<close>

record Canvas =
  highlighted_nodes :: "int set"
  highlighted_edges :: "(int \<times> int) set"

definition highlight_nodes :: "int set \<Rightarrow> Canvas \<Rightarrow> Canvas" where
  "highlight_nodes ns c = c\<lparr>highlighted_nodes := ns\<rparr>"

definition highlight_edges :: "(int \<times> int) set \<Rightarrow> Canvas \<Rightarrow> Canvas" where
  "highlight_edges es c = c\<lparr>highlighted_edges := es\<rparr>"

definition clear_highlights :: "Canvas \<Rightarrow> Canvas" where
  "clear_highlights c = c\<lparr>highlighted_nodes := {}, highlighted_edges := {}\<rparr>"

record AlgorithmModule =
  graph :: Graph
  canvas :: Canvas









section \<open>Shortest paths (graphlabs/algorithms/shortest_path/dijkstra.py)\<close>

















fun path_edges :: "int list \<Rightarrow> (int \<times> int) list" where
  "path_edges (a # b # rest) = (a, b) # path_edges (b # rest)"
| "path_edges path = []"




section \<open>Eulerian analysis (graphlabs/algorithms/cycles/eulerian.py)\<close>

text \<open>
  A \<open>defaultdict(int)\<close> as an association list in insertion order: \<open>d[k] += 1\<close> adds
  the key at the end with the value 1 when it is new, and counts up in place otherwise.
\<close>

definition lookup_count :: "(int \<times> nat) list \<Rightarrow> int \<Rightarrow> nat" where
  "lookup_count d k = (case map_of d k of None \<Rightarrow> 0 | Some c \<Rightarrow> c)"

definition increment :: "int \<Rightarrow> (int \<times> nat) list \<Rightarrow> (int \<times> nat) list" where
  "increment k d = AList.update k (lookup_count d k + 1) d"

text \<open>
  \<open>_compute_degrees\<close>, undirected branch: the dict of degrees, keyed by the vertices in
  the order in which the edge list first mentions them.
\<close>

definition compute_degrees_undirected :: "Graph \<Rightarrow> (int \<times> nat) list" where
  "compute_degrees_undirected g =
     foldl (\<lambda>degrees edge. increment (target edge) (increment (source edge) degrees)) [] (edges g)"

text \<open>
  \<open>_compute_degrees\<close>, directed branch: the pair (in-degree, out-degree) of every vertex
  of the graph. The source fills the dict in the iteration order of a set of ids;
  \<open>_analyze_directed\<close> reads it through \<open>sorted(degrees.keys())\<close>, lookups and
  \<open>len\<close> only, so the model keeps it in ascending key order.
\<close>

definition compute_degrees_directed :: "Graph \<Rightarrow> (int \<times> nat \<times> nat) list" where
  "compute_degrees_directed g =
     (case foldl (\<lambda>(in_deg, out_deg) edge.
                    (increment (target edge) in_deg, increment (source edge) out_deg))
                 ([], []) (edges g) of
        (in_deg, out_deg) \<Rightarrow>
          map (\<lambda>node. (node, lookup_count in_deg node, lookup_count out_deg node))
            (sort (remdups (node_ids g))))"

text \<open>
  \<open>_find_eulerian_circuit\<close>. \<open>edges_left\<close> is a \<open>defaultdict(list)\<close>: reading a
  missing key gives the empty list. The lists and the stack grow and shrink at their end.
\<close>

definition lookup_list :: "(int \<times> int list) list \<Rightarrow> int \<Rightarrow> int list" where
  "lookup_list d k = (case map_of d k of None \<Rightarrow> [] | Some xs \<Rightarrow> xs)"

definition append_to :: "int \<Rightarrow> int \<Rightarrow> (int \<times> int list) list \<Rightarrow> (int \<times> int list) list" where
  "append_to k v d = AList.update k (lookup_list d k @ [v]) d"

definition build_edges_left :: "Graph \<Rightarrow> (int \<times> int list) list" where
  "build_edges_left g =
     foldl (\<lambda>edges_left edge.
              (if \<not> directed g
               then append_to (target edge) (source edge)
                      (append_to (source edge) (target edge) edges_left)
               else append_to (source edge) (target edge) edges_left))
       [] (edges g)"

type_synonym hierholzer_state = "(int \<times> int list) list \<times> int list \<times> int list \<times> int"

definition hierholzer_step :: "bool \<Rightarrow> hierholzer_state \<Rightarrow> hierholzer_state" where
  "hierholzer_step d s =
     (case s of (edges_left, circuit, stack, cur) \<Rightarrow>
        if lookup_list edges_left cur \<noteq> []
        then let next_node = last (lookup_list edges_left cur);
                 popped = AList.update cur (butlast (lookup_list edges_left cur)) edges_left;
                 removed = (if \<not> d \<and> cur \<in> set (lookup_list popped next_node)
                            then AList.update next_node
                                   (remove1 cur (lookup_list popped next_node)) popped
                            else popped)
             in (removed, circuit, stack @ [next_node], next_node)
        else (edges_left, circuit @ [cur], butlast stack, last stack))"

definition edges_left_size :: "(int \<times> int list) list \<Rightarrow> nat" where
  "edges_left_size d = sum_list (map (\<lambda>p. length (snd p)) d)"

lemma edges_left_size_update:
  "edges_left_size (AList.update k v d) + length (lookup_list d k) = edges_left_size d + length v"
  by (induction d) (auto simp: edges_left_size_def lookup_list_def)

lemma hierholzer_step_measure:
  assumes "stack \<noteq> []"
    and "hierholzer_step d (edges_left, circuit, stack, cur) = (edges_left', circuit', stack', cur')"
  shows "2 * edges_left_size edges_left' + length stack'
           < 2 * edges_left_size edges_left + length stack"
proof (cases "lookup_list edges_left cur = []")
  case True
  with assms show ?thesis by (auto simp: hierholzer_step_def)
next
  case False
  define popped where "popped = AList.update cur (butlast (lookup_list edges_left cur)) edges_left"
  define next_node where "next_node = last (lookup_list edges_left cur)"
  have pos: "0 < length (lookup_list edges_left cur)" using False by simp
  have "edges_left_size popped + length (lookup_list edges_left cur)
          = edges_left_size edges_left + (length (lookup_list edges_left cur) - 1)"
    using edges_left_size_update[of cur "butlast (lookup_list edges_left cur)" edges_left]
    by (simp add: popped_def)
  with pos have p: "edges_left_size popped + 1 = edges_left_size edges_left"
    by linarith
  have "edges_left_size (AList.update next_node (remove1 cur (lookup_list popped next_node)) popped)
          + length (lookup_list popped next_node)
          = edges_left_size popped + length (remove1 cur (lookup_list popped next_node))"
    by (rule edges_left_size_update)
  moreover have "length (remove1 cur (lookup_list popped next_node))
          \<le> length (lookup_list popped next_node)"
    by (simp add: length_remove1)
  ultimately have r:
    "edges_left_size (AList.update next_node (remove1 cur (lookup_list popped next_node)) popped)
             \<le> edges_left_size popped"
    by linarith
  from assms(2) False have
    "edges_left' = (if \<not> d \<and> cur \<in> set (lookup_list popped next_node)
                    then AList.update next_node (remove1 cur (lookup_list popped next_node)) popped
                    else popped)"
    and "stack' = stack @ [next_node]"
    by (auto simp: hierholzer_step_def Let_def popped_def next_node_def)
  with p r show ?thesis by (auto split: if_splits)
qed

function hierholzer_loop :: "bool \<Rightarrow> hierholzer_state \<Rightarrow> int list" where
  "hierholzer_loop d (edges_left, circuit, stack, cur) =
     (if stack = [] then circuit
      else hierholzer_loop d (hierholzer_step d (edges_left, circuit, stack, cur)))"
  by pat_completeness auto
termination
  apply (relation "measure (\<lambda>(d, edges_left, circuit, stack, cur).
           2 * edges_left_size edges_left + length stack)")
   apply simp
  subgoal for d edges_left circuit stack cur
    using hierholzer_step_measure[of stack d edges_left circuit cur]
    by (cases "hierholzer_step d (edges_left, circuit, stack, cur)") auto
  done

declare hierholzer_loop.simps [simp del]

definition find_eulerian_circuit :: "Graph \<Rightarrow> int \<Rightarrow> int list" where
  "find_eulerian_circuit g start =
     (let circuit = hierholzer_loop (directed g) (build_edges_left g, [], [start], start)
      in if length circuit > 1 then rev circuit else [])"

definition find_eulerian_path :: "Graph \<Rightarrow> int \<Rightarrow> int \<Rightarrow> int list" where
  "find_eulerian_path g start end_node = find_eulerian_circuit g start"

text \<open>
  The report of \<open>run\<close> keeps the values that the string is formatted from: the table of
  degrees in ascending id order, the verdict, the vertices that the report lists with the
  verdict, and the labels of the walk that was built.
\<close>

datatype eulerian_verdict = Circuit_exists | Path_exists | Neither

datatype eulerian_report =
  Eulerian_empty_graph
  | Eulerian_no_edges
  | Eulerian_undirected "(string \<times> nat) list" eulerian_verdict "(string \<times> nat) list" "string list"
  | Eulerian_directed "(string \<times> nat \<times> nat) list" eulerian_verdict
      "string list" "string list" "(string \<times> int) list" "string list"

definition odd_degree_nodes :: "(int \<times> nat) list \<Rightarrow> int list" where
  "odd_degree_nodes degrees = map fst (filter (\<lambda>(node, deg). deg mod 2 = 1) degrees)"

definition analyze_undirected ::
  "AlgorithmModule \<Rightarrow> (int \<times> nat) list \<Rightarrow> eulerian_report \<times> AlgorithmModule" where
  "analyze_undirected m degrees =
     (let table = map (\<lambda>node_id. (get_label (graph m) node_id, lookup_count degrees node_id))
                    (sort (map fst degrees));
          odd = odd_degree_nodes degrees;
          num_odd = length odd;
          listed = map (\<lambda>node. (get_label (graph m) node, lookup_count degrees node)) odd
      in if num_odd = 0 then
           (let start_node = first_node (graph m);
                circuit = find_eulerian_circuit (graph m) start_node
            in (Eulerian_undirected table Circuit_exists [] (map (get_label (graph m)) circuit),
                if circuit \<noteq> []
                then m\<lparr>canvas := highlight_edges (set (path_edges circuit))
                                    (highlight_nodes (set circuit) (canvas m))\<rparr>
                else m))
         else if num_odd = 2 then
           (let path = find_eulerian_path (graph m) (odd ! 0) (odd ! 1)
            in (Eulerian_undirected table Path_exists listed (map (get_label (graph m)) path),
                if path \<noteq> [] then m\<lparr>canvas := highlight_nodes (set path) (canvas m)\<rparr> else m))
         else (Eulerian_undirected table Neither listed [],
               m\<lparr>canvas := highlight_nodes (set odd) (canvas m)\<rparr>))"

definition start_candidates :: "(int \<times> nat \<times> nat) list \<Rightarrow> int list" where
  "start_candidates degrees =
     map fst (filter (\<lambda>(node, in_deg, out_deg). int out_deg - int in_deg = 1) degrees)"

definition end_candidates :: "(int \<times> nat \<times> nat) list \<Rightarrow> int list" where
  "end_candidates degrees =
     map fst (filter (\<lambda>(node, in_deg, out_deg). int out_deg - int in_deg = - 1) degrees)"

definition other_unbalanced :: "(int \<times> nat \<times> nat) list \<Rightarrow> (int \<times> int) list" where
  "other_unbalanced degrees =
     map (\<lambda>(node, in_deg, out_deg). (node, int out_deg - int in_deg))
       (filter (\<lambda>(node, in_deg, out_deg). int out_deg - int in_deg \<notin> {0, 1, - 1}) degrees)"

definition analyze_directed ::
  "AlgorithmModule \<Rightarrow> (int \<times> nat \<times> nat) list \<Rightarrow> eulerian_report \<times> AlgorithmModule" where
  "analyze_directed m degrees =
     (let table = map (\<lambda>(node_id, in_deg, out_deg). (get_label (graph m) node_id, in_deg, out_deg))
                    degrees;
          starts = start_candidates degrees;
          ends = end_candidates degrees;
          others = other_unbalanced degrees;
          has_circuit = (length starts = 0 \<and> length ends = 0 \<and> length others = 0);
          has_path = (length starts = 1 \<and> length ends = 1 \<and> length others = 0);
          start_labels = map (get_label (graph m)) starts;
          end_labels = map (get_label (graph m)) ends;
          other_labels = map (\<lambda>(node, diff). (get_label (graph m) node, diff)) others
      in if has_circuit then
           (let start = first_node (graph m);
                circuit = find_eulerian_circuit (graph m) start
            in (Eulerian_directed table Circuit_exists start_labels end_labels other_labels
                  (map (get_label (graph m)) circuit),
                if circuit \<noteq> []
                then m\<lparr>canvas := highlight_edges (set (path_edges circuit))
                                    (highlight_nodes (set circuit) (canvas m))\<rparr>
                else m))
         else if has_path then
           (let start = starts ! 0;
                path = find_eulerian_circuit (graph m) start
            in (Eulerian_directed table Path_exists start_labels end_labels other_labels
                  (map (get_label (graph m)) path),
                if path \<noteq> [] then m\<lparr>canvas := highlight_nodes (set path) (canvas m)\<rparr> else m))
         else (Eulerian_directed table Neither start_labels end_labels other_labels [],
               m\<lparr>canvas := highlight_nodes (set (starts @ ends @ map fst others)) (canvas m)\<rparr>))"

text \<open>\<open>EulerianModule.run\<close>; the argument \<open>start_node\<close> is never read.\<close>

definition Eulerian_run :: "AlgorithmModule \<Rightarrow> int option \<Rightarrow> eulerian_report \<times> AlgorithmModule" where
  "Eulerian_run m start_node =
     (if nodes (graph m) = [] then (Eulerian_empty_graph, m)
      else if edges (graph m) = [] then (Eulerian_no_edges, m)
      else if directed (graph m)
        then analyze_directed m (compute_degrees_directed (graph m))
        else analyze_undirected m (compute_degrees_undirected (graph m)))"

text \<open>
  The vertex at which \<open>run\<close> starts its walk, that is, the argument with which it calls
  \<open>_find_eulerian_circuit\<close>, when it builds a walk at all.
\<close>

definition eulerian_walk_start :: "Graph \<Rightarrow> int option" where
  "eulerian_walk_start g =
     (if nodes g = [] \<or> edges g = [] then None
      else if directed g then
        (let degrees = compute_degrees_directed g;
             starts = start_candidates degrees;
             ends = end_candidates degrees;
             others = other_unbalanced degrees
         in if length starts = 0 \<and> length ends = 0 \<and> length others = 0 then Some (first_node g)
            else if length starts = 1 \<and> length ends = 1 \<and> length others = 0 then Some (starts ! 0)
            else None)
      else
        (let odd = odd_degree_nodes (compute_degrees_undirected g)
         in if length odd = 0 then Some (first_node g)
            else if length odd = 2 then Some (odd ! 0)
            else None))"




fun report_walk :: "eulerian_report \<Rightarrow> string list" where
  "report_walk (Eulerian_undirected table verdict listed walk) = walk"
| "report_walk (Eulerian_directed table verdict starts ends others walk) = walk"
| "report_walk report = []"

section \<open>Properties of the graph model\<close>






lemma wf_graph_fresh_id:
  assumes "wf_graph g"
  shows "\<not> has_node g (next_id g)"
    and "filter (\<lambda>e. source e \<noteq> next_id g \<and> target e \<noteq> next_id g) (edges g) = edges g"
proof -
  show f: "\<not> has_node g (next_id g)"
    using assms by (auto simp: wf_graph_def ids_ascending_def has_node_def list_all_iff)
  have "\<forall>e \<in> set (edges g). source e \<noteq> next_id g \<and> target e \<noteq> next_id g"
    using assms f by (auto simp: wf_graph_def edges_closed_def list_all_iff)
  then show "filter (\<lambda>e. source e \<noteq> next_id g \<and> target e \<noteq> next_id g) (edges g) = edges g"
    by (simp add: filter_id_conv)
qed

lemma delete_update_fresh:
  "k \<notin> fst ` set al \<Longrightarrow> AList.delete k (AList.update k v al) = al"
  by (induction al) auto

text \<open>
  Claim C7, on the code: \<open>remove_edge(0, 1)\<close> on an undirected graph whose only edge
  is stored as (1, 0) removes nothing. The edge is still found by \<open>get_edge(0, 1)\<close>,
  and 1 is still a neighbour of 0.
\<close>

theorem remove_edge_keeps_reversed_edge:
  "\<not> directed reversed_edge_graph \<and>
   map (\<lambda>e. (source e, target e)) (edges reversed_edge_graph) = [(1, 0)] \<and>
   remove_edge 0 1 reversed_edge_graph = reversed_edge_graph \<and>
   map_option (\<lambda>e. (source e, target e)) (get_edge (remove_edge 0 1 reversed_edge_graph) 0 1)
     = Some (1, 0) \<and>
   get_neighbors (remove_edge 0 1 reversed_edge_graph) 0 = [1]"
  by (simp add: example_defs graph_defs)

text \<open>
  Claim C8, as stated, fails: in a graph that already holds an edge (0, 1), adding a
  second edge (0, 1) and removing it leaves no edge at all, so the edge count and the
  neighbours of 0 differ from the original.
\<close>

theorem add_remove_edge_counterexample:
  "has_node single_edge_graph 0 \<and> has_node single_edge_graph 1 \<and>
   length (edges (remove_edge 0 1 (add_edge 0 1 1 single_edge_graph)))
     \<noteq> length (edges single_edge_graph) \<and>
   get_neighbors (remove_edge 0 1 (add_edge 0 1 1 single_edge_graph)) 0
     \<noteq> get_neighbors single_edge_graph 0"
  by (simp add: example_defs graph_defs)

text \<open>
  Claim C8, amended. When no edge of the graph joins u and v beforehand, in the sense of
  \<open>get_edge\<close> (stored as (u, v) or, in an undirected graph, as (v, u)), adding an edge
  (u, v) and removing it gives back the very same graph, hence the same neighbour lists
  and edge count. In a graph whose ids are below the counter and whose edges join
  existing vertices, adding a vertex and removing the id that was returned gives back the
  same vertex dict, edge list and directed flag; only the id counter has advanced.
\<close>

theorem add_then_remove_roundtrip:
  "(\<not> list_ex (edge_matches g u v) (edges g) \<longrightarrow>
      remove_edge u v (add_edge u v w g) = g) \<and>
   (wf_graph g \<longrightarrow>
      remove_node (fst (add_node px py l g)) (snd (add_node px py l g))
        = g\<lparr>next_id := next_id g + 1\<rparr>)"
proof -
  have e: "remove_edge u v (add_edge u v w g) = g"
    if "\<not> list_ex (edge_matches g u v) (edges g)"
  proof -
    from that have "filter (\<lambda>e. \<not> (source e = u \<and> target e = v)) (edges g) = edges g"
      by (auto simp add: filter_id_conv list_ex_iff edge_matches_def)
    then show ?thesis
      by (simp add: remove_edge_def add_edge_def Edge_init_def)
  qed
  have n: "remove_node (fst (add_node px py l g)) (snd (add_node px py l g))
        = g\<lparr>next_id := next_id g + 1\<rparr>" if w: "wf_graph g"
  proof -
    have fresh: "next_id g \<notin> fst ` set (nodes g)"
      using wf_graph_fresh_id(1)[OF w] by (simp add: has_node_def node_ids_def)
    have "has_node (snd (add_node px py l g)) (next_id g)"
      by (simp add: add_node_def Let_def has_node_def node_ids_def update_keys)
    then show ?thesis
      using wf_graph_fresh_id(2)[OF w] fresh
      by (simp add: remove_node_def add_node_def Let_def delete_update_fresh)
  qed
  show ?thesis using e n by blast
qed

theorem add_then_remove_roundtrip_witness:
  "\<not> list_ex (edge_matches one_edge_three_nodes 1 2) (edges one_edge_three_nodes) \<and>
   wf_graph one_edge_three_nodes \<and>
   length (edges (add_edge 1 2 7 one_edge_three_nodes)) = 2 \<and>
   remove_edge 1 2 (add_edge 1 2 7 one_edge_three_nodes) = one_edge_three_nodes \<and>
   remove_node (fst (add_node 0 0 [] one_edge_three_nodes))
       (snd (add_node 0 0 [] one_edge_three_nodes))
     = one_edge_three_nodes\<lparr>next_id := next_id one_edge_three_nodes + 1\<rparr>"
proof -
  have a: "\<not> list_ex (edge_matches one_edge_three_nodes 1 2) (edges one_edge_three_nodes)"
    by (simp add: example_defs graph_defs)
  have b: "wf_graph one_edge_three_nodes"
    by (simp add: wf_graph_def ids_ascending_def edges_closed_def example_defs graph_defs)
  have c: "length (edges (add_edge 1 2 7 one_edge_three_nodes)) = 2"
    by (simp add: example_defs graph_defs)
  show ?thesis
    using a b c add_then_remove_roundtrip[of one_edge_three_nodes 1 2 7 0 0 "[]"] by blast
qed

section \<open>The order of the vertex dict and the start vertex of the analyses\<close>



lemma eulerian_walk_from_start:
  "eulerian_walk_start (graph m) = Some s \<Longrightarrow>
   report_walk (fst (Eulerian_run m start_node))
     = map (get_label (graph m)) (find_eulerian_circuit (graph m) s)"
  by (auto simp: Eulerian_run_def analyze_undirected_def analyze_directed_def
      eulerian_walk_start_def find_eulerian_path_def Let_def split: if_splits)




section \<open>Properties of the traversals\<close>






















subsection \<open>Depth-first search on a chain\<close>

















end
